theory Spec2Isabelle
  imports Main "HOL-Library.Char_ord" "HOL-Library.List_Lexorder" "HOL-Library.Sublist"
begin

section \<open>Values exchanged with the caller\<close>

text \<open>
  The \<^verbatim>\<open>Migration\<close> and \<^verbatim>\<open>ToolResponse\<close> interfaces of the type declarations.
  Optional members are options.
\<close>

datatype migration_status = Pending | Applied | Failed

record Migration =
  version :: string
  name :: string
  executed_at :: "string option"
  status :: migration_status
  sql :: "string option"

record 'a ToolResponse =
  success :: bool
  data :: "'a option"
  error :: "string option"
  message :: "string option"

record RolledBack =
  rolledBack :: "string list"

text \<open>
  Values that travel through \<^verbatim>\<open>throw\<close> and \<^verbatim>\<open>catch\<close>: the \<^verbatim>\<open>error\<close> member of a
  supabase-js response (code and message), a plain \<^verbatim>\<open>new Error(message)\<close>, and an axios
  error (the message of the response body when there is one, and the error's own message).
  The \<^verbatim>\<open>error\<close> member of a response is a plain object: it is neither an axios error nor
  an instance of \<^verbatim>\<open>Error\<close>, so its message is not printed.
\<close>

datatype js_error =
    PostgrestError string string
  | Error string
  | AxiosError "string option" string

text \<open>The text \<^verbatim>\<open>handleError\<close> puts after the colon: for an axios error
  \<^verbatim>\<open>error.response?.data?.message || error.message\<close>, otherwise
  \<^verbatim>\<open>error instanceof Error ? error.message : 'Unknown error'\<close>.\<close>

fun error_text :: "js_error \<Rightarrow> string" where
  "error_text (AxiosError response_message m) =
     (case response_message of
        None \<Rightarrow> m
      | Some r \<Rightarrow> if r = [] then m else r)"
| "error_text (Error m) = m"
| "error_text (PostgrestError code m) = ''Unknown error''"

definition handleError :: "js_error \<Rightarrow> string \<Rightarrow> 'a ToolResponse" where
  "handleError e msg =
     \<lparr>success = False, data = None, error = Some (msg @ '': '' @ error_text e),
      message = None\<rparr>"

section \<open>The clock and the version stamp\<close>

text \<open>
  A \<^verbatim>\<open>Date\<close> is kept as its UTC fields. \<^verbatim>\<open>toISOString\<close> follows ECMAScript: a year from
  0 to 9999 is written with four digits, any other year with a sign and six digits.
\<close>

record Date =
  utc_year :: int
  utc_month :: nat
  utc_day :: nat
  utc_hours :: nat
  utc_minutes :: nat
  utc_seconds :: nat
  utc_milliseconds :: nat

definition valid_Date :: "Date \<Rightarrow> bool" where
  "valid_Date d =
     (- 271821 \<le> utc_year d \<and> utc_year d \<le> 275760 \<and>
      1 \<le> utc_month d \<and> utc_month d \<le> 12 \<and> 1 \<le> utc_day d \<and> utc_day d \<le> 31 \<and>
      utc_hours d < 24 \<and> utc_minutes d < 60 \<and> utc_seconds d < 60 \<and>
      utc_milliseconds d < 1000)"

definition digit_char :: "nat \<Rightarrow> char" where
  "digit_char n = ''0123456789'' ! (n mod 10)"

fun decimal :: "nat \<Rightarrow> string" where
  "decimal n = (if n < 10 then [digit_char n] else decimal (n div 10) @ [digit_char n])"

declare decimal.simps [simp del]

definition padStart :: "nat \<Rightarrow> string \<Rightarrow> string" where
  "padStart width s = replicate (width - length s) (CHR ''0'') @ s"

definition iso_year :: "int \<Rightarrow> string" where
  "iso_year y =
     (if 0 \<le> y \<and> y \<le> 9999 then padStart 4 (decimal (nat y))
      else (if y < 0 then ''-'' else ''+'') @ padStart 6 (decimal (nat \<bar>y\<bar>)))"

definition toISOString :: "Date \<Rightarrow> string" where
  "toISOString d =
     iso_year (utc_year d) @ ''-'' @ padStart 2 (decimal (utc_month d)) @ ''-'' @
     padStart 2 (decimal (utc_day d)) @ ''T'' @ padStart 2 (decimal (utc_hours d)) @ '':'' @
     padStart 2 (decimal (utc_minutes d)) @ '':'' @ padStart 2 (decimal (utc_seconds d)) @
     ''.'' @ padStart 3 (decimal (utc_milliseconds d)) @ ''Z''"

text \<open>The character class \<^verbatim>\<open>[-:.TZ]\<close> of the version expression.\<close>

definition separator :: "char \<Rightarrow> bool" where
  "separator c = (c \<in> set ''-:.TZ'')"

text \<open>\<^verbatim>\<open>new Date().toISOString().replace(/[-:.TZ]/g, '').slice(0, 14)\<close>, on the date read.\<close>

definition version_stamp :: "Date \<Rightarrow> string" where
  "version_stamp d = take 14 (filter (\<lambda>c. \<not> separator c) (toISOString d))"

definition is_digit :: "char \<Rightarrow> bool" where
  "is_digit c = (c \<in> set ''0123456789'')"

text \<open>The pattern \<^verbatim>\<open>/^\d{14}$/\<close> of \<^verbatim>\<open>versionSchema\<close>.\<close>

definition fourteen_digits :: "string \<Rightarrow> bool" where
  "fourteen_digits s = (length s = 14 \<and> list_all is_digit s)"

section \<open>The backend: tables, gateway and faults\<close>

text \<open>
  The rows of \<^verbatim>\<open>supabase_migrations.schema_migrations\<close> (the columns the code reads, and
  the remaining ones as pairs) and of \<^verbatim>\<open>_migration_rollbacks\<close>.
\<close>

record history_row =
  row_version :: string
  row_name :: "string option"
  inserted_at :: "string option"
  other_columns :: "(string \<times> string) list"

record rollback_row =
  rb_version :: string
  rb_name :: string
  down_sql :: string
  created_at :: string

text \<open>Every request that leaves the process, in the order sent.\<close>

datatype event =
    RpcExec string
  | RpcExecSql string
  | AdminQuery string
  | HistorySelectAll
  | HistorySelectEq string
  | HistorySelectGt string
  | HistoryDelete string
  | RollbacksInsert rollback_row
  | RollbacksSelectEq string

primrec store_access :: "event \<Rightarrow> bool" where
  "store_access (RpcExec q) = False"
| "store_access (RpcExecSql q) = False"
| "store_access (AdminQuery q) = False"
| "store_access HistorySelectAll = True"
| "store_access (HistorySelectEq v) = True"
| "store_access (HistorySelectGt v) = True"
| "store_access (HistoryDelete v) = True"
| "store_access (RollbacksInsert r) = True"
| "store_access (RollbacksSelectEq v) = True"

type_synonym tables = "history_row list \<times> rollback_row list option"

text \<open>
  What the process cannot decide. \<open>clock_at k\<close> is the \<open>k\<close>-th reading of \<^verbatim>\<open>new Date()\<close>.
  The other members answer the request sent when the trace has the given length:
  \<open>rpc_exec\<close> and \<open>rpc_exec_sql\<close> give the \<^verbatim>\<open>error.message\<close> of the two RPC functions
  (\<open>None\<close>: the statement ran), \<open>admin_query\<close> tells whether the admin POST resolves,
  \<open>store_fault\<close> is an error of a table request whatever the rows are. \<open>sql_effect\<close> is what
  a statement that ran did to the two bookkeeping tables; a statement that failed did
  nothing.
\<close>

record backend =
  clock_at :: "nat \<Rightarrow> Date"
  rpc_exec :: "nat \<Rightarrow> string \<Rightarrow> string option"
  rpc_exec_sql :: "nat \<Rightarrow> string \<Rightarrow> string option"
  admin_query :: "nat \<Rightarrow> string \<Rightarrow> bool"
  store_fault :: "nat \<Rightarrow> js_error option"
  sql_effect :: "string \<Rightarrow> tables \<Rightarrow> tables"

text \<open>What changes: the clock readings taken, the two tables (the ledger table may not
  exist), and the requests sent so far.\<close>

record world =
  clock_reads :: nat
  schema_migrations :: "history_row list"
  migration_rollbacks :: "rollback_row list option"
  trace :: "event list"

definition new_Date :: "backend \<Rightarrow> world \<Rightarrow> Date \<times> world" where
  "new_Date B w = (clock_at B (clock_reads w), w\<lparr>clock_reads := Suc (clock_reads w)\<rparr>)"

definition sent :: "event \<Rightarrow> world \<Rightarrow> world" where
  "sent e w = w\<lparr>trace := trace w @ [e]\<rparr>"

definition run_sql :: "backend \<Rightarrow> string \<Rightarrow> world \<Rightarrow> world" where
  "run_sql B q w =
     (case sql_effect B q (schema_migrations w, migration_rollbacks w) of
        (h, l) \<Rightarrow> w\<lparr>schema_migrations := h, migration_rollbacks := l\<rparr>)"

text \<open>\<^verbatim>\<open>this.client.rpc('exec', { query })\<close>: the \<^verbatim>\<open>error\<close> member of the answer.\<close>

definition client_rpc_exec :: "backend \<Rightarrow> string \<Rightarrow> world \<Rightarrow> string option \<times> world" where
  "client_rpc_exec B q w =
     (case rpc_exec B (length (trace w)) q of
        Some m \<Rightarrow> (Some m, sent (RpcExec q) w)
      | None \<Rightarrow> (None, run_sql B q (sent (RpcExec q) w)))"

text \<open>\<^verbatim>\<open>this.client.rpc('exec_sql', { sql_query })\<close>.\<close>

definition client_rpc_exec_sql :: "backend \<Rightarrow> string \<Rightarrow> world \<Rightarrow> string option \<times> world" where
  "client_rpc_exec_sql B q w =
     (case rpc_exec_sql B (length (trace w)) q of
        Some m \<Rightarrow> (Some m, sent (RpcExecSql q) w)
      | None \<Rightarrow> (None, run_sql B q (sent (RpcExecSql q) w)))"

text \<open>\<^verbatim>\<open>this.adminClient.post('/rest/v1/rpc/query', { q })\<close>: \<open>False\<close> when it throws.\<close>

definition admin_post_query :: "backend \<Rightarrow> string \<Rightarrow> world \<Rightarrow> bool \<times> world" where
  "admin_post_query B q w =
     (if admin_query B (length (trace w)) q then (True, run_sql B q (sent (AdminQuery q) w))
      else (False, sent (AdminQuery q) w))"

text \<open>\<^verbatim>\<open>.single()\<close>: exactly one row, or the error PGRST116.\<close>

definition no_single_row :: js_error where
  "no_single_row =
     PostgrestError ''PGRST116'' ''JSON object requested, multiple (or no) rows returned''"

definition single :: "'a list \<Rightarrow> js_error + 'a" where
  "single rows = (case rows of [r] \<Rightarrow> Inr r | _ \<Rightarrow> Inl no_single_row)"

text \<open>The table requests. Text columns are compared as character lists; \<^verbatim>\<open>order('version',
  { ascending: false })\<close> is the reverse of the ascending sort.\<close>

definition descending :: "history_row list \<Rightarrow> history_row list" where
  "descending rows = rev (sort_key row_version rows)"

definition history_select_all :: "backend \<Rightarrow> world \<Rightarrow> (js_error + history_row list) \<times> world" where
  "history_select_all B w =
     (case store_fault B (length (trace w)) of
        Some e \<Rightarrow> (Inl e, sent HistorySelectAll w)
      | None \<Rightarrow> (Inr (descending (schema_migrations w)), sent HistorySelectAll w))"

definition history_select_single ::
  "backend \<Rightarrow> string \<Rightarrow> world \<Rightarrow> (js_error + history_row) \<times> world" where
  "history_select_single B v w =
     (case store_fault B (length (trace w)) of
        Some e \<Rightarrow> (Inl e, sent (HistorySelectEq v) w)
      | None \<Rightarrow>
          (single (filter (\<lambda>r. row_version r = v) (schema_migrations w)),
           sent (HistorySelectEq v) w))"

definition history_select_gt ::
  "backend \<Rightarrow> string \<Rightarrow> world \<Rightarrow> (js_error + history_row list) \<times> world" where
  "history_select_gt B target w =
     (case store_fault B (length (trace w)) of
        Some e \<Rightarrow> (Inl e, sent (HistorySelectGt target) w)
      | None \<Rightarrow>
          (Inr (descending (filter (\<lambda>r. target < row_version r) (schema_migrations w))),
           sent (HistorySelectGt target) w))"

definition history_delete :: "backend \<Rightarrow> string \<Rightarrow> world \<Rightarrow> js_error option \<times> world" where
  "history_delete B v w =
     (case store_fault B (length (trace w)) of
        Some e \<Rightarrow> (Some e, sent (HistoryDelete v) w)
      | None \<Rightarrow>
          (None,
           sent (HistoryDelete v)
             (w\<lparr>schema_migrations := filter (\<lambda>r. row_version r \<noteq> v) (schema_migrations w)\<rparr>)))"

definition undefined_table :: js_error where
  "undefined_table = PostgrestError ''42P01'' ''relation _migration_rollbacks does not exist''"

definition unique_violation :: js_error where
  "unique_violation =
     PostgrestError ''23505'' ''duplicate key value violates unique constraint''"

text \<open>The ledger table has \<^verbatim>\<open>version TEXT PRIMARY KEY\<close>.\<close>

definition rollbacks_insert ::
  "backend \<Rightarrow> rollback_row \<Rightarrow> world \<Rightarrow> js_error option \<times> world" where
  "rollbacks_insert B row w =
     (case store_fault B (length (trace w)) of
        Some e \<Rightarrow> (Some e, sent (RollbacksInsert row) w)
      | None \<Rightarrow>
          (case migration_rollbacks w of
             None \<Rightarrow> (Some undefined_table, sent (RollbacksInsert row) w)
           | Some rows \<Rightarrow>
               if rb_version row \<in> set (map rb_version rows)
               then (Some unique_violation, sent (RollbacksInsert row) w)
               else (None,
                     sent (RollbacksInsert row)
                       (w\<lparr>migration_rollbacks := Some (rows @ [row])\<rparr>))))"

definition rollbacks_select_single ::
  "backend \<Rightarrow> string \<Rightarrow> world \<Rightarrow> (js_error + rollback_row) \<times> world" where
  "rollbacks_select_single B v w =
     (case store_fault B (length (trace w)) of
        Some e \<Rightarrow> (Inl e, sent (RollbacksSelectEq v) w)
      | None \<Rightarrow>
          (case migration_rollbacks w of
             None \<Rightarrow> (Inl undefined_table, sent (RollbacksSelectEq v) w)
           | Some rows \<Rightarrow>
               (single (filter (\<lambda>r. rb_version r = v) rows), sent (RollbacksSelectEq v) w)))"

section \<open>The migration operations of the Supabase manager\<close>

text \<open>
  Each method is a \<^verbatim>\<open>try\<close> block whose \<^verbatim>\<open>catch\<close> returns \<^verbatim>\<open>handleError\<close>. A request of
  the supabase-js client answers with an \<^verbatim>\<open>error\<close> member and does not throw. What is
  written to the console is left out.
\<close>

text \<open>The Migration built from a row, the same in \<^verbatim>\<open>listMigrations\<close> and
  \<^verbatim>\<open>getMigrationStatus\<close>; \<^verbatim>\<open>row.name || ...\<close> replaces a null or empty name.\<close>

definition migration_of_row :: "history_row \<Rightarrow> Migration" where
  "migration_of_row r =
     \<lparr>version = row_version r,
      name = (case row_name r of
                None \<Rightarrow> ''Migration '' @ row_version r
              | Some n \<Rightarrow> if n = [] then ''Migration '' @ row_version r else n),
      executed_at = inserted_at r,
      status = Applied,
      sql = None\<rparr>"

definition listMigrations :: "backend \<Rightarrow> world \<Rightarrow> Migration list ToolResponse \<times> world" where
  "listMigrations B w =
     (case history_select_all B w of
        (Inl e, w1) \<Rightarrow> (handleError e ''Failed to list migrations'', w1)
      | (Inr rows, w1) \<Rightarrow>
          (\<lparr>success = True, data = Some (map migration_of_row rows), error = None,
            message = None\<rparr>, w1))"

definition getMigrationStatus ::
  "backend \<Rightarrow> string \<Rightarrow> world \<Rightarrow> Migration ToolResponse \<times> world" where
  "getMigrationStatus B v w =
     (case history_select_single B v w of
        (Inl e, w1) \<Rightarrow>
          (handleError e (''Failed to get migration status for version '' @ v), w1)
      | (Inr r, w1) \<Rightarrow>
          (\<lparr>success = True, data = Some (migration_of_row r), error = None, message = None\<rparr>,
           w1))"

definition deploy_failed_text :: "string \<Rightarrow> string" where
  "deploy_failed_text m =
     ''Migration created but SQL execution failed: '' @ m @
     ''. Execute SQL manually in Supabase dashboard, then use CLI: supabase migration list''"

definition deploy_created_text :: "string \<Rightarrow> string \<Rightarrow> string" where
  "deploy_created_text nm v =
     ''Migration '' @ nm @ '' ('' @ v @
     '') created. Note: For self-hosted Supabase, you may need to apply migrations using the Supabase CLI: supabase db push''"

text \<open>The last statements of \<^verbatim>\<open>deployMigration\<close>, reached when the RPC or the admin POST
  ran the statement.\<close>

definition deploy_applied ::
  "backend \<Rightarrow> string \<Rightarrow> string \<Rightarrow> string \<Rightarrow> world \<Rightarrow> Migration ToolResponse \<times> world" where
  "deploy_applied B v sqlText nm w =
     (case new_Date B w of
        (d, w1) \<Rightarrow>
          (\<lparr>success = True,
            data = Some \<lparr>version = v, name = nm, executed_at = Some (toISOString d),
                         status = Applied, sql = Some sqlText\<rparr>,
            error = None,
            message = Some (deploy_created_text nm v)\<rparr>, w1))"

definition deployMigration ::
  "backend \<Rightarrow> string \<Rightarrow> string \<Rightarrow> world \<Rightarrow> Migration ToolResponse \<times> world" where
  "deployMigration B sqlText nm w0 =
     (case new_Date B w0 of
        (d0, w1) \<Rightarrow>
          (case client_rpc_exec B sqlText w1 of
             (None, w2) \<Rightarrow> deploy_applied B (version_stamp d0) sqlText nm w2
           | (Some m, w2) \<Rightarrow>
               (case admin_post_query B sqlText w2 of
                  (True, w3) \<Rightarrow> deploy_applied B (version_stamp d0) sqlText nm w3
                | (False, w3) \<Rightarrow>
                    (case new_Date B w3 of
                       (d1, w4) \<Rightarrow>
                         (\<lparr>success = False,
                           data = Some \<lparr>version = version_stamp d0, name = nm,
                                        executed_at = Some (toISOString d1),
                                        status = Pending, sql = Some sqlText\<rparr>,
                           error = Some (deploy_failed_text m),
                           message = None\<rparr>, w4)))))"

definition sql_unsupported_text :: "string \<Rightarrow> string" where
  "sql_unsupported_text m =
     ''SQL execution not supported via REST API. Please use one of these alternatives:'' @
     [CHR 0x0A] @ ''1. Supabase CLI: supabase db execute --file your-file.sql'' @
     [CHR 0x0A] @ ''2. Supabase Dashboard: SQL Editor'' @
     [CHR 0x0A] @ ''3. Direct psql connection: psql $SUPABASE_DB_URL'' @
     [CHR 0x0A] @ ''Error: '' @ m"

text \<open>\<^verbatim>\<open>executeSQL\<close>; the rows an RPC returns are not looked at by any caller here.\<close>

definition executeSQL :: "backend \<Rightarrow> string \<Rightarrow> world \<Rightarrow> unit ToolResponse \<times> world" where
  "executeSQL B sqlText w =
     (case client_rpc_exec B sqlText w of
        (Some m, w1) \<Rightarrow>
          (\<lparr>success = False, data = None, error = Some (sql_unsupported_text m),
            message = None\<rparr>, w1)
      | (None, w1) \<Rightarrow>
          (\<lparr>success = True, data = Some (), error = None,
            message = Some ''SQL executed successfully''\<rparr>, w1))"

definition delete_statement :: "string \<Rightarrow> string" where
  "delete_statement v =
     ''DELETE FROM supabase_migrations.schema_migrations WHERE version = '' @
     [CHR 0x27] @ v @ [CHR 0x27]"

text \<open>The first half of \<^verbatim>\<open>rollbackMigration\<close>: \<^verbatim>\<open>if (downSql)\<close> is false for a missing and
  for an empty string. The result is what is thrown, if anything.\<close>

definition run_down_sql ::
  "backend \<Rightarrow> string option \<Rightarrow> world \<Rightarrow> js_error option \<times> world" where
  "run_down_sql B downSql w0 =
     (case downSql of
        None \<Rightarrow> (None, w0)
      | Some d \<Rightarrow>
          if d = [] then (None, w0)
          else
            (case client_rpc_exec_sql B d w0 of
               (None, w1) \<Rightarrow> (None, w1)
             | (Some execError, w1) \<Rightarrow>
                 (case executeSQL B d w1 of
                    (rawResult, w2) \<Rightarrow>
                      if \<not> success rawResult
                      then (Some (Error (case error rawResult of None \<Rightarrow> [] | Some m \<Rightarrow> m)), w2)
                      else (None, w2))))"

definition rolled_back_text :: "string \<Rightarrow> string" where
  "rolled_back_text v = ''Migration '' @ v @ '' rolled back successfully''"

definition rollbackMigration ::
  "backend \<Rightarrow> string \<Rightarrow> string option \<Rightarrow> world \<Rightarrow> unit ToolResponse \<times> world" where
  "rollbackMigration B v downSql w0 =
     (case run_down_sql B downSql w0 of
        (Some e, w1) \<Rightarrow> (handleError e (''Failed to rollback migration '' @ v), w1)
      | (None, w1) \<Rightarrow>
          (case history_delete B v w1 of
             (None, w2) \<Rightarrow>
               (\<lparr>success = True, data = None, error = None,
                 message = Some (rolled_back_text v)\<rparr>, w2)
           | (Some deleteError, w2) \<Rightarrow>
               (\<lparr>success = True, data = None, error = None,
                 message = Some (rolled_back_text v)\<rparr>,
                snd (executeSQL B (delete_statement v) w2))))"

text \<open>The loop of \<^verbatim>\<open>rollbackToVersion\<close> over the selected rows.\<close>

fun delete_each ::
  "backend \<Rightarrow> history_row list \<Rightarrow> string list \<Rightarrow> world \<Rightarrow> string list \<times> world" where
  "delete_each B [] rolledBackVersions w = (rolledBackVersions, w)"
| "delete_each B (migration # rest) rolledBackVersions w =
     (case history_delete B (row_version migration) w of
        (None, w1) \<Rightarrow> delete_each B rest (rolledBackVersions @ [row_version migration]) w1
      | (Some deleteError, w1) \<Rightarrow> delete_each B rest rolledBackVersions w1)"

definition rollbackToVersion ::
  "backend \<Rightarrow> string \<Rightarrow> world \<Rightarrow> RolledBack ToolResponse \<times> world" where
  "rollbackToVersion B targetVersion w0 =
     (case history_select_gt B targetVersion w0 of
        (Inl e, w1) \<Rightarrow> (handleError e (''Failed to rollback to version '' @ targetVersion), w1)
      | (Inr migrations, w1) \<Rightarrow>
          if migrations = []
          then (\<lparr>success = True, data = Some \<lparr>rolledBack = []\<rparr>, error = None,
                 message = Some ''No migrations to rollback''\<rparr>, w1)
          else
            (case delete_each B migrations [] w1 of
               (rolledBackVersions, w2) \<Rightarrow>
                 (\<lparr>success = True, data = Some \<lparr>rolledBack = rolledBackVersions\<rparr>,
                   error = None,
                   message = Some (''Rolled back '' @ decimal (length rolledBackVersions) @
                                   '' migration(s) to version '' @ targetVersion)\<rparr>, w2)))"

definition create_rollbacks_table :: string where
  "create_rollbacks_table =
     [CHR 0x0A] @ ''          CREATE TABLE IF NOT EXISTS _migration_rollbacks ('' @
     [CHR 0x0A] @ ''            version TEXT PRIMARY KEY,'' @
     [CHR 0x0A] @ ''            name TEXT,'' @
     [CHR 0x0A] @ ''            down_sql TEXT,'' @
     [CHR 0x0A] @ ''            created_at TIMESTAMP DEFAULT NOW()'' @
     [CHR 0x0A] @ ''          );'' @
     [CHR 0x0A] @ ''        ''"

text \<open>The ledger write of \<^verbatim>\<open>createMigrationWithRollback\<close>: one insert and, when it answers
  with an error, the table statement and a second insert whose answer is dropped.\<close>

definition store_down_sql ::
  "backend \<Rightarrow> string \<Rightarrow> string \<Rightarrow> string \<Rightarrow> world \<Rightarrow> world" where
  "store_down_sql B v nm downSql w0 =
     (case new_Date B w0 of
        (d0, w1) \<Rightarrow>
          (case rollbacks_insert B
                  \<lparr>rb_version = v, rb_name = nm, down_sql = downSql,
                   created_at = toISOString d0\<rparr> w1 of
             (None, w2) \<Rightarrow> w2
           | (Some storeError, w2) \<Rightarrow>
               (case new_Date B (snd (executeSQL B create_rollbacks_table w2)) of
                  (d1, w3) \<Rightarrow>
                    snd (rollbacks_insert B
                           \<lparr>rb_version = v, rb_name = nm, down_sql = downSql,
                            created_at = toISOString d1\<rparr> w3))))"

definition createMigrationWithRollback ::
  "backend \<Rightarrow> string \<Rightarrow> string \<Rightarrow> string \<Rightarrow> world \<Rightarrow> Migration ToolResponse \<times> world" where
  "createMigrationWithRollback B nm upSql downSql w0 =
     (case new_Date B w0 of
        (d0, w1) \<Rightarrow>
          (case deployMigration B upSql nm w1 of
             (deployResult, w2) \<Rightarrow>
               if \<not> success deployResult then (deployResult, w2)
               else
                 (\<lparr>success = True, data = data deployResult, error = None,
                   message = Some (''Migration '' @ nm @ '' deployed with rollback support'')\<rparr>,
                  store_down_sql B (version_stamp d0) nm downSql w2)))"

definition no_rollback_text :: "string \<Rightarrow> string" where
  "no_rollback_text v =
     ''No rollback SQL found for migration '' @ v @
     ''. Use rollbackMigration() with manual down SQL instead.''"

definition rollbackMigrationWithDownSql ::
  "backend \<Rightarrow> string \<Rightarrow> world \<Rightarrow> unit ToolResponse \<times> world" where
  "rollbackMigrationWithDownSql B v w0 =
     (case rollbacks_select_single B v w0 of
        (Inl fetchError, w1) \<Rightarrow>
          (\<lparr>success = False, data = None, error = Some (no_rollback_text v), message = None\<rparr>,
           w1)
      | (Inr rollbackData, w1) \<Rightarrow> rollbackMigration B v (Some (down_sql rollbackData)) w1)"

section \<open>Input schemas and tool handlers\<close>

text \<open>
  The arguments of a tool call, as the handlers' parameter types declare them: string
  members that may be missing. A schema gives the messages of its issues (none: the
  input is accepted, and a string passes through unchanged).
\<close>

type_synonym tool_args = "(string \<times> string) list"

definition z_string :: "(string \<Rightarrow> string list) \<Rightarrow> string option \<Rightarrow> string list" where
  "z_string checks v = (case v of None \<Rightarrow> [''Required''] | Some s \<Rightarrow> checks s)"

definition optional :: "(string option \<Rightarrow> string list) \<Rightarrow> string option \<Rightarrow> string list" where
  "optional schema v = (case v of None \<Rightarrow> [] | Some s \<Rightarrow> schema v)"

definition versionSchema :: "string option \<Rightarrow> string list" where
  "versionSchema =
     z_string (\<lambda>s. if fourteen_digits s then []
                    else [''Version must be 14 digits (YYYYMMDDHHMMSS)''])"

definition nameSchema :: "string option \<Rightarrow> string list" where
  "nameSchema =
     z_string (\<lambda>s. (if length s < 1 then [''Name cannot be empty''] else []) @
                    (if 100 < length s then [''Name too long''] else []))"

definition sqlSchema :: "string option \<Rightarrow> string list" where
  "sqlSchema = z_string (\<lambda>s. if length s < 1 then [''SQL cannot be empty''] else [])"

definition at_path :: "string \<Rightarrow> string list \<Rightarrow> string list" where
  "at_path p issues = map (\<lambda>m. p @ '': '' @ m) issues"

definition deployMigrationSchema :: "tool_args \<Rightarrow> string list" where
  "deployMigrationSchema a =
     at_path ''sql'' (sqlSchema (map_of a ''sql'')) @
     at_path ''name'' (nameSchema (map_of a ''name''))"

definition createMigrationWithRollbackSchema :: "tool_args \<Rightarrow> string list" where
  "createMigrationWithRollbackSchema a =
     at_path ''name'' (nameSchema (map_of a ''name'')) @
     at_path ''up_sql'' (sqlSchema (map_of a ''up_sql'')) @
     at_path ''down_sql'' (sqlSchema (map_of a ''down_sql''))"

definition rollbackMigrationSchema :: "tool_args \<Rightarrow> string list" where
  "rollbackMigrationSchema a =
     at_path ''version'' (versionSchema (map_of a ''version'')) @
     at_path ''down_sql'' (optional sqlSchema (map_of a ''down_sql''))"

definition rollbackToVersionSchema :: "tool_args \<Rightarrow> string list" where
  "rollbackToVersionSchema a = at_path ''version'' (versionSchema (map_of a ''version''))"

definition getMigrationStatusSchema :: "tool_args \<Rightarrow> string list" where
  "getMigrationStatusSchema a = at_path ''version'' (versionSchema (map_of a ''version''))"

fun join :: "string list \<Rightarrow> string" where
  "join [] = []"
| "join [x] = x"
| "join (x # y # ys) = x @ '', '' @ join (y # ys)"

text \<open>\<^verbatim>\<open>validateInput\<close>: what it throws, if anything.\<close>

definition validateInput :: "(tool_args \<Rightarrow> string list) \<Rightarrow> tool_args \<Rightarrow> js_error option" where
  "validateInput schema a =
     (case schema a of
        [] \<Rightarrow> None
      | issues \<Rightarrow> Some (Error (''Validation failed: '' @ join issues)))"

text \<open>A member read by destructuring; a missing one is \<^verbatim>\<open>undefined\<close>, which the request
  builder and the template strings render as that word.\<close>

definition member :: "tool_args \<Rightarrow> string \<Rightarrow> string" where
  "member a k = (case map_of a k of None \<Rightarrow> ''undefined'' | Some s \<Rightarrow> s)"

datatype tool_output =
    Migrations "Migration list ToolResponse"
  | OneMigration "Migration ToolResponse"
  | NoData "unit ToolResponse"
  | Versions "RolledBack ToolResponse"

text \<open>The names under which \<^verbatim>\<open>registerSupabaseTools\<close> sets the handlers of the migration
  operations whose arguments are strings.\<close>

datatype tool_name =
    list_migrations
  | deploy_migration
  | get_migration_status
  | rollback_migration
  | rollback_to_version
  | create_migration_with_rollback
  | rollback_migration_with_down_sql

text \<open>The handler set for each name; \<open>Inl\<close> is what the handler throws.\<close>

fun toolHandlers ::
  "tool_name \<Rightarrow> backend \<Rightarrow> tool_args \<Rightarrow> world \<Rightarrow> (js_error + tool_output) \<times> world" where
  "toolHandlers list_migrations B a w =
     apfst (\<lambda>r. Inr (Migrations r)) (listMigrations B w)"
| "toolHandlers deploy_migration B a w =
     (case validateInput deployMigrationSchema a of
        Some e \<Rightarrow> (Inl e, w)
      | None \<Rightarrow>
          apfst (\<lambda>r. Inr (OneMigration r))
            (deployMigration B (member a ''sql'') (member a ''name'') w))"
| "toolHandlers get_migration_status B a w =
     apfst (\<lambda>r. Inr (OneMigration r)) (getMigrationStatus B (member a ''version'') w)"
| "toolHandlers rollback_migration B a w =
     apfst (\<lambda>r. Inr (NoData r))
       (rollbackMigration B (member a ''version'') (map_of a ''down_sql'') w)"
| "toolHandlers rollback_to_version B a w =
     apfst (\<lambda>r. Inr (Versions r)) (rollbackToVersion B (member a ''version'') w)"
| "toolHandlers create_migration_with_rollback B a w =
     (case validateInput createMigrationWithRollbackSchema a of
        Some e \<Rightarrow> (Inl e, w)
      | None \<Rightarrow>
          apfst (\<lambda>r. Inr (OneMigration r))
            (createMigrationWithRollback B (member a ''name'') (member a ''up_sql'')
               (member a ''down_sql'') w))"
| "toolHandlers rollback_migration_with_down_sql B a w =
     apfst (\<lambda>r. Inr (NoData r)) (rollbackMigrationWithDownSql B (member a ''version'') w)"

text \<open>The answer of the request handler: the handler's result as content, or the message
  of what it threw, flagged \<^verbatim>\<open>isError\<close>.\<close>

datatype tool_reply = Content tool_output | IsError string

text \<open>\<^verbatim>\<open>error instanceof Error ? error.message : 'Unknown error'\<close> of the request handler.\<close>

fun js_message :: "js_error \<Rightarrow> string" where
  "js_message (PostgrestError code m) = ''Unknown error''"
| "js_message (Error m) = m"
| "js_message (AxiosError response_message m) = m"

text \<open>The \<^verbatim>\<open>CallToolRequestSchema\<close> handler, for a name that has a handler.\<close>

definition call_tool :: "backend \<Rightarrow> tool_name \<Rightarrow> tool_args \<Rightarrow> world \<Rightarrow> tool_reply \<times> world" where
  "call_tool B tool a w =
     (case toolHandlers tool B a w of
        (Inl e, w1) \<Rightarrow> (IsError (js_message e), w1)
      | (Inr r, w1) \<Rightarrow> (Content r, w1))"

section \<open>Concrete backends and worlds\<close>

text \<open>The last millisecond of a second and the first of the next.\<close>

definition new_year :: Date where
  "new_year =
     \<lparr>utc_year = 2024, utc_month = 1, utc_day = 1, utc_hours = 0, utc_minutes = 0,
      utc_seconds = 0, utc_milliseconds = 999\<rparr>"

definition one_ms_later :: Date where
  "one_ms_later = new_year\<lparr>utc_seconds := 1, utc_milliseconds := 0\<rparr>"

text \<open>Every request is served, no statement touches the bookkeeping tables, and the clock
  stands still.\<close>

definition healthy_backend :: backend where
  "healthy_backend =
     \<lparr>clock_at = (\<lambda>k. new_year),
      rpc_exec = (\<lambda>k q. None),
      rpc_exec_sql = (\<lambda>k q. None),
      admin_query = (\<lambda>k q. True),
      store_fault = (\<lambda>k. None),
      sql_effect = (\<lambda>q t. t)\<rparr>"

text \<open>Neither the RPC functions nor the admin endpoint run a statement.\<close>

definition gateway_down :: backend where
  "gateway_down =
     healthy_backend
       \<lparr>rpc_exec := (\<lambda>k q. Some ''function exec does not exist''),
        rpc_exec_sql := (\<lambda>k q. Some ''function exec_sql does not exist''),
        admin_query := (\<lambda>k q. False)\<rparr>"

text \<open>The second reading of the clock falls into the next second.\<close>

definition second_boundary :: backend where
  "second_boundary =
     healthy_backend\<lparr>clock_at := (\<lambda>k. if k = 0 then new_year else one_ms_later)\<rparr>"

text \<open>Every table request is refused.\<close>

definition store_refuses :: backend where
  "store_refuses =
     healthy_backend
       \<lparr>store_fault := (\<lambda>k. Some (PostgrestError ''42501'' ''permission denied''))\<rparr>"

text \<open>The first table request is refused, the later ones are served, and neither RPC
  function nor the admin endpoint runs a statement.\<close>

definition delete_refused :: backend where
  "delete_refused =
     gateway_down
       \<lparr>store_fault :=
          (\<lambda>k. if k = 0 then Some (PostgrestError ''42501'' ''permission denied'') else None)\<rparr>"

definition fresh_world :: world where
  "fresh_world =
     \<lparr>clock_reads = 0, schema_migrations = [], migration_rollbacks = Some [], trace = []\<rparr>"

definition history_of :: "string list \<Rightarrow> history_row list" where
  "history_of vs =
     map (\<lambda>v. \<lparr>row_version = v, row_name = None, inserted_at = None,
               other_columns = [(''status'', ''pending'')]\<rparr>) vs"

definition three_applied :: world where
  "three_applied =
     fresh_world
       \<lparr>schema_migrations :=
          history_of [''20240101000000'', ''20240301000000'', ''20240201000000'']\<rparr>"

section \<open>Facts about the version stamp\<close>

lemma digit_char_is_digit: "is_digit (digit_char n)"
  unfolding digit_char_def is_digit_def by (rule nth_mem) simp

lemma decimal_digits: "list_all is_digit (decimal n)"
proof (induction n rule: decimal.induct)
  case (1 n)
  show ?case
  proof (cases "n < 10")
    case True
    then show ?thesis by (simp add: decimal.simps [of n] digit_char_is_digit)
  next
    case False
    with 1 show ?thesis by (simp add: decimal.simps [of n] digit_char_is_digit)
  qed
qed

lemma decimal_length: "n < 10 ^ k \<Longrightarrow> 0 < k \<Longrightarrow> length (decimal n) \<le> k"
proof (induction n arbitrary: k rule: decimal.induct)
  case (1 n)
  show ?case
  proof (cases "n < 10")
    case True
    with 1(3) show ?thesis by (simp add: decimal.simps [of n])
  next
    case False
    obtain j where k: "k = Suc j" using 1(3) by (cases k) auto
    from False 1(2) k have "j \<noteq> 0" by (cases j) auto
    moreover from 1(2) k have "n div 10 < 10 ^ j"
      by (simp add: less_mult_imp_div_less mult.commute)
    ultimately have "length (decimal (n div 10)) \<le> j"
      using 1(1) [OF False, of j] by simp
    with False k show ?thesis by (simp add: decimal.simps [of n])
  qed
qed

lemma padStart_length: "n < 10 ^ k \<Longrightarrow> 0 < k \<Longrightarrow> length (padStart k (decimal n)) = k"
  using decimal_length [of n k] by (simp add: padStart_def)

lemma padStart_digits: "list_all is_digit (padStart k (decimal n))"
proof -
  have "is_digit (CHR ''0'')" by (simp add: is_digit_def)
  then show ?thesis
    using decimal_digits [of n] by (auto simp: padStart_def list_all_iff)
qed

lemma digits_kept: "list_all is_digit s \<Longrightarrow> filter (\<lambda>c. \<not> separator c) s = s"
  by (induction s) (auto simp: is_digit_def separator_def)

lemma separators_dropped:
  "separator (CHR ''-'')" "separator (CHR '':'')" "separator (CHR ''.'')"
  "separator (CHR ''T'')" "separator (CHR ''Z'')"
  by (simp_all add: separator_def)

lemma version_stamp_fields:
  assumes "valid_Date d" and "0 \<le> utc_year d" and "utc_year d \<le> 9999"
  shows "version_stamp d =
           padStart 4 (decimal (nat (utc_year d))) @ padStart 2 (decimal (utc_month d)) @
           padStart 2 (decimal (utc_day d)) @ padStart 2 (decimal (utc_hours d)) @
           padStart 2 (decimal (utc_minutes d)) @ padStart 2 (decimal (utc_seconds d))"
    and "fourteen_digits (version_stamp d)"
proof -
  have y: "length (padStart 4 (decimal (nat (utc_year d)))) = 4"
    using assms by (intro padStart_length) auto
  have mo: "length (padStart 2 (decimal (utc_month d))) = 2"
    using assms by (intro padStart_length) (auto simp: valid_Date_def)
  have da: "length (padStart 2 (decimal (utc_day d))) = 2"
    using assms by (intro padStart_length) (auto simp: valid_Date_def)
  have h: "length (padStart 2 (decimal (utc_hours d))) = 2"
    using assms by (intro padStart_length) (auto simp: valid_Date_def)
  have mi: "length (padStart 2 (decimal (utc_minutes d))) = 2"
    using assms by (intro padStart_length) (auto simp: valid_Date_def)
  have s: "length (padStart 2 (decimal (utc_seconds d))) = 2"
    using assms by (intro padStart_length) (auto simp: valid_Date_def)
  show eq: "version_stamp d =
           padStart 4 (decimal (nat (utc_year d))) @ padStart 2 (decimal (utc_month d)) @
           padStart 2 (decimal (utc_day d)) @ padStart 2 (decimal (utc_hours d)) @
           padStart 2 (decimal (utc_minutes d)) @ padStart 2 (decimal (utc_seconds d))"
    using assms(2,3)
    by (simp add: version_stamp_def toISOString_def iso_year_def digits_kept padStart_digits
        separators_dropped y mo da h mi s)
  show "fourteen_digits (version_stamp d)"
    unfolding eq fourteen_digits_def
    by (simp add: y mo da h mi s padStart_digits)
qed

lemma version_stamp_new_year: "version_stamp new_year = ''20240101000000''"
  by (simp add: version_stamp_def toISOString_def iso_year_def padStart_def decimal.simps
      digit_char_def separator_def new_year_def)

lemma version_stamp_one_ms_later: "version_stamp one_ms_later = ''20240101000001''"
  by (simp add: version_stamp_def toISOString_def iso_year_def padStart_def decimal.simps
      digit_char_def separator_def new_year_def one_ms_later_def)

lemma toISOString_new_year: "toISOString new_year = ''2024-01-01T00:00:00.999Z''"
  by code_simp

lemma toISOString_one_ms_later: "toISOString one_ms_later = ''2024-01-01T00:00:01.000Z''"
  by code_simp

lemma deployMigration_version:
  "map_option version (data (fst (deployMigration B q nm w))) =
     Some (version_stamp (clock_at B (clock_reads w)))"
  by (simp add: deployMigration_def deploy_applied_def new_Date_def
      split: prod.splits option.splits bool.splits)

lemma rollbacks_insert_trace:
  "trace (snd (rollbacks_insert B row w)) = trace w @ [RollbacksInsert row]"
  by (simp add: rollbacks_insert_def sent_def split: option.splits)

lemma executeSQL_trace: "trace (snd (executeSQL B q w)) = trace w @ [RpcExec q]"
  by (simp add: executeSQL_def client_rpc_exec_def run_sql_def sent_def
      split: option.splits prod.splits)

lemma deployMigration_trace:
  "trace (snd (deployMigration B q nm w)) = trace w @ [RpcExec q] \<or>
   trace (snd (deployMigration B q nm w)) = trace w @ [RpcExec q, AdminQuery q]"
  by (simp add: deployMigration_def deploy_applied_def new_Date_def client_rpc_exec_def
      admin_post_query_def run_sql_def sent_def split: option.splits prod.splits)

lemma store_down_sql_trace:
  "\<exists>r0 r1. rb_version r0 = v \<and> rb_version r1 = v \<and>
     (trace (store_down_sql B v nm downSql w) = trace w @ [RollbacksInsert r0] \<or>
      trace (store_down_sql B v nm downSql w) =
        trace w @ [RollbacksInsert r0, RpcExec create_rollbacks_table, RollbacksInsert r1])"
proof -
  let ?r0 = "\<lparr>rb_version = v, rb_name = nm, down_sql = downSql,
              created_at = toISOString (clock_at B (clock_reads w))\<rparr>"
  let ?w1 = "w\<lparr>clock_reads := Suc (clock_reads w)\<rparr>"
  obtain err w2 where ins: "rollbacks_insert B ?r0 ?w1 = (err, w2)"
    by (cases "rollbacks_insert B ?r0 ?w1")
  then have t2: "trace w2 = trace w @ [RollbacksInsert ?r0]"
    using rollbacks_insert_trace [of B ?r0 ?w1] by simp
  show ?thesis
  proof (cases err)
    case None
    with ins t2 have "trace (store_down_sql B v nm downSql w) = trace w @ [RollbacksInsert ?r0]"
      by (simp add: store_down_sql_def new_Date_def)
    then show ?thesis by (intro exI [of _ ?r0]) simp
  next
    case (Some e)
    let ?w3 = "snd (executeSQL B create_rollbacks_table w2)"
    let ?r1 = "\<lparr>rb_version = v, rb_name = nm, down_sql = downSql,
                created_at = toISOString (clock_at B (clock_reads ?w3))\<rparr>"
    from Some ins t2 have "trace (store_down_sql B v nm downSql w) =
        trace w @ [RollbacksInsert ?r0, RpcExec create_rollbacks_table, RollbacksInsert ?r1]"
      by (simp add: store_down_sql_def new_Date_def rollbacks_insert_trace executeSQL_trace)
    then show ?thesis by (intro exI [of _ ?r0] exI [of _ ?r1]) simp
  qed
qed

lemma createMigrationWithRollback_ledger_stamp:
  assumes "RollbacksInsert row \<in>
             set (drop (length (trace w))
                    (trace (snd (createMigrationWithRollback B nm upSql downSql w))))"
  shows "rb_version row = version_stamp (clock_at B (clock_reads w))"
proof -
  let ?v = "version_stamp (clock_at B (clock_reads w))"
  let ?w1 = "w\<lparr>clock_reads := Suc (clock_reads w)\<rparr>"
  let ?w2 = "snd (deployMigration B upSql nm ?w1)"
  have dep: "trace ?w2 = trace w @ [RpcExec upSql] \<or>
             trace ?w2 = trace w @ [RpcExec upSql, AdminQuery upSql]"
    using deployMigration_trace [of B upSql nm ?w1] by simp
  show ?thesis
  proof (cases "success (fst (deployMigration B upSql nm ?w1))")
    case False
    then have "snd (createMigrationWithRollback B nm upSql downSql w) = ?w2"
      by (simp add: createMigrationWithRollback_def new_Date_def case_prod_beta)
    with assms dep show ?thesis by auto
  next
    case True
    then have w': "snd (createMigrationWithRollback B nm upSql downSql w) =
                     store_down_sql B ?v nm downSql ?w2"
      by (simp add: createMigrationWithRollback_def new_Date_def case_prod_beta)
    obtain r0 r1 where r: "rb_version r0 = ?v" "rb_version r1 = ?v"
      and tr: "trace (store_down_sql B ?v nm downSql ?w2) = trace ?w2 @ [RollbacksInsert r0] \<or>
               trace (store_down_sql B ?v nm downSql ?w2) =
                 trace ?w2 @ [RollbacksInsert r0, RpcExec create_rollbacks_table,
                              RollbacksInsert r1]"
      using store_down_sql_trace [of ?v B nm downSql ?w2] by blast
    from assms w' dep tr r show ?thesis by auto
  qed
qed

section \<open>The allocated version and the status that queries report\<close>

text \<open>
  C9. The version allocated at creation is the stamp of the clock reading taken there,
  both the version that \<open>deployMigration\<close> returns and the version under which
  \<open>createMigrationWithRollback\<close> writes its ledger rows. For a reading that is a valid date
  with a four-digit year (the years the format YYYYMMDDHHMMSS can denote) the stamp is the
  four digits of the year followed by two digits each for month, day, hours, minutes and
  seconds: a string of exactly fourteen decimal digits.
\<close>

theorem version_is_timestamp_of_clock_reading:
  assumes "clock_at B (clock_reads w) = d"
    and "valid_Date d" and "0 \<le> utc_year d" and "utc_year d \<le> 9999"
  shows "map_option version (data (fst (deployMigration B q nm w))) = Some (version_stamp d) \<and>
         (\<forall>row. RollbacksInsert row \<in>
                  set (drop (length (trace w))
                         (trace (snd (createMigrationWithRollback B nm q downSql w)))) \<longrightarrow>
                rb_version row = version_stamp d) \<and>
         version_stamp d =
           padStart 4 (decimal (nat (utc_year d))) @ padStart 2 (decimal (utc_month d)) @
           padStart 2 (decimal (utc_day d)) @ padStart 2 (decimal (utc_hours d)) @
           padStart 2 (decimal (utc_minutes d)) @ padStart 2 (decimal (utc_seconds d)) \<and>
         fourteen_digits (version_stamp d)"
proof (intro conjI allI impI)
  show "map_option version (data (fst (deployMigration B q nm w))) = Some (version_stamp d)"
    using assms(1) deployMigration_version [of B q nm w] by simp
  show "rb_version row = version_stamp d"
    if "RollbacksInsert row \<in>
          set (drop (length (trace w))
                 (trace (snd (createMigrationWithRollback B nm q downSql w))))" for row
    using createMigrationWithRollback_ledger_stamp [OF that] assms(1) by simp
  show "version_stamp d =
           padStart 4 (decimal (nat (utc_year d))) @ padStart 2 (decimal (utc_month d)) @
           padStart 2 (decimal (utc_day d)) @ padStart 2 (decimal (utc_hours d)) @
           padStart 2 (decimal (utc_minutes d)) @ padStart 2 (decimal (utc_seconds d))"
    by (rule version_stamp_fields(1) [OF assms(2,3,4)])
  show "fourteen_digits (version_stamp d)"
    by (rule version_stamp_fields(2) [OF assms(2,3,4)])
qed

theorem version_is_timestamp_of_clock_reading_witness:
  "clock_at healthy_backend (clock_reads fresh_world) = new_year \<and> valid_Date new_year \<and>
   0 \<le> utc_year new_year \<and> utc_year new_year \<le> 9999 \<and>
   map_option version
     (data (fst (deployMigration healthy_backend ''CREATE TABLE users()'' ''add_users_table''
                   fresh_world))) = Some ''20240101000000'' \<and>
   trace (snd (createMigrationWithRollback healthy_backend ''add_users_table''
                 ''CREATE TABLE users()'' ''DROP TABLE users'' fresh_world)) =
     [RpcExec ''CREATE TABLE users()'',
      RollbacksInsert \<lparr>rb_version = ''20240101000000'', rb_name = ''add_users_table'',
                       down_sql = ''DROP TABLE users'',
                       created_at = ''2024-01-01T00:00:00.999Z''\<rparr>] \<and>
   fourteen_digits ''20240101000000''"
proof -
  have a: "clock_at healthy_backend (clock_reads fresh_world) = new_year"
    by (simp add: healthy_backend_def)
  have b: "valid_Date new_year" by (simp add: valid_Date_def new_year_def)
  have c: "0 \<le> utc_year new_year" by (simp add: new_year_def)
  have d: "utc_year new_year \<le> 9999" by (simp add: new_year_def)
  have tr: "trace (snd (createMigrationWithRollback healthy_backend ''add_users_table''
                 ''CREATE TABLE users()'' ''DROP TABLE users'' fresh_world)) =
     [RpcExec ''CREATE TABLE users()'',
      RollbacksInsert \<lparr>rb_version = ''20240101000000'', rb_name = ''add_users_table'',
                       down_sql = ''DROP TABLE users'',
                       created_at = ''2024-01-01T00:00:00.999Z''\<rparr>]"
    by (simp add: createMigrationWithRollback_def store_down_sql_def deployMigration_def
        deploy_applied_def new_Date_def client_rpc_exec_def run_sql_def sent_def
        rollbacks_insert_def version_stamp_new_year toISOString_new_year healthy_backend_def
        fresh_world_def)
  have "map_option version
          (data (fst (deployMigration healthy_backend ''CREATE TABLE users()''
                        ''add_users_table'' fresh_world))) = Some (version_stamp new_year)"
    and "fourteen_digits (version_stamp new_year)"
    using version_is_timestamp_of_clock_reading
            [OF a b c d, of "''CREATE TABLE users()''" "''add_users_table''"]
    by blast+
  then show ?thesis
    using a b c d tr by (simp add: version_stamp_new_year)
qed

text \<open>
  C10. Every Migration that \<open>listMigrations\<close> or \<open>getMigrationStatus\<close> returns has status
  \<open>Applied\<close>, whatever the stored row holds.
\<close>

theorem queries_report_applied_only:
  "(\<forall>ms. data (fst (listMigrations B w)) = Some ms \<longrightarrow> (\<forall>m \<in> set ms. status m = Applied)) \<and>
   (\<forall>m. data (fst (getMigrationStatus B v w)) = Some m \<longrightarrow> status m = Applied)"
  by (auto simp: listMigrations_def getMigrationStatus_def handleError_def migration_of_row_def
      split: prod.splits sum.splits)

theorem queries_report_applied_only_witness:
  "map_option (map status) (data (fst (listMigrations healthy_backend three_applied))) =
     Some [Applied, Applied, Applied] \<and>
   map_option status
     (data (fst (getMigrationStatus healthy_backend ''20240201000000'' three_applied))) =
     Some Applied \<and>
   list_all (\<lambda>r. other_columns r = [(''status'', ''pending'')]) (schema_migrations three_applied)"
  using queries_report_applied_only [of healthy_backend three_applied "''20240201000000''"]
  by (simp add: listMigrations_def getMigrationStatus_def history_select_all_def
      history_select_single_def single_def descending_def sent_def healthy_backend_def
      three_applied_def fresh_world_def history_of_def migration_of_row_def)

section \<open>Facts about the bulk rollback\<close>

lemma sent_fields:
  "trace (sent e w) = trace w @ [e]"
  "schema_migrations (sent e w) = schema_migrations w"
  "migration_rollbacks (sent e w) = migration_rollbacks w"
  "clock_reads (sent e w) = clock_reads w"
  by (simp_all add: sent_def)

lemma history_delete_trace:
  "trace (snd (history_delete B v w)) = trace w @ [HistoryDelete v]"
  by (simp add: history_delete_def sent_fields split: option.splits)

lemma delete_each_trace:
  "trace (snd (delete_each B ms acc w)) =
     trace w @ map HistoryDelete (map row_version ms)"
proof (induction ms arbitrary: acc w)
  case Nil
  then show ?case by simp
next
  case (Cons m ms)
  obtain err w1 where step: "history_delete B (row_version m) w = (err, w1)"
    by (cases "history_delete B (row_version m) w")
  then have "trace w1 = trace w @ [HistoryDelete (row_version m)]"
    using history_delete_trace [of B "row_version m" w] by simp
  with step Cons.IH show ?case by (cases err) simp_all
qed

lemma delete_each_subseq:
  "\<exists>ys. fst (delete_each B ms acc w) = acc @ ys \<and> subseq ys (map row_version ms)"
proof (induction ms arbitrary: acc w)
  case Nil
  then show ?case by simp
next
  case (Cons m ms)
  obtain err w1 where step: "history_delete B (row_version m) w = (err, w1)"
    by (cases "history_delete B (row_version m) w")
  show ?case
  proof (cases err)
    case None
    from Cons.IH [of "acc @ [row_version m]" w1] obtain ys
      where "fst (delete_each B ms (acc @ [row_version m]) w1) = (acc @ [row_version m]) @ ys"
        and "subseq ys (map row_version ms)" by blast
    with step None show ?thesis by (intro exI [of _ "row_version m # ys"]) simp
  next
    case (Some e)
    from Cons.IH [of acc w1] obtain ys
      where "fst (delete_each B ms acc w1) = acc @ ys"
        and "subseq ys (map row_version ms)" by blast
    with step Some show ?thesis by (intro exI [of _ ys]) (simp add: list_emb_Cons)
  qed
qed

lemma subseq_sorted_wrt: "subseq xs ys \<Longrightarrow> sorted_wrt P ys \<Longrightarrow> sorted_wrt P xs"
proof (induction xs ys rule: list_emb.induct)
  case (list_emb_Nil ys)
  then show ?case by simp
next
  case (list_emb_Cons xs ys y)
  then show ?case by simp
next
  case (list_emb_Cons2 x y xs ys)
  then have "set xs \<subseteq> set ys" by (auto dest: list_emb_set)
  with list_emb_Cons2 show ?case by auto
qed

lemma descending_sorted: "sorted (rev (map row_version (descending rows)))"
  by (simp add: descending_def rev_map)

lemma descending_set: "set (descending rows) = set rows"
  by (simp add: descending_def)

lemma descending_distinct:
  assumes "distinct (map row_version rows)"
  shows "distinct (map row_version (descending rows))"
proof -
  from assms have "distinct rows" and "inj_on row_version (set rows)"
    by (simp_all add: distinct_map)
  then show ?thesis by (simp add: descending_def distinct_map)
qed

text \<open>
  C7. When \<open>rollbackToVersion\<close> returns a list, every version in it is greater than the
  target, the list is in descending order (strictly when the stored versions are
  distinct), and it is a subsequence of the versions selected: the delete requests were
  sent for the selected versions one after the other from the newest down.
\<close>

theorem rollbackToVersion_newest_first:
  assumes "data (fst (rollbackToVersion B target w)) = Some r"
    and "selected =
           map row_version (descending (filter (\<lambda>r. target < row_version r) (schema_migrations w)))"
  shows "(\<forall>v \<in> set (rolledBack r). target < v) \<and>
         sorted (rev (rolledBack r)) \<and>
         (distinct (map row_version (schema_migrations w)) \<longrightarrow>
            sorted_wrt (\<lambda>a b. b < a) (rolledBack r)) \<and>
         sorted (rev selected) \<and>
         subseq (rolledBack r) selected \<and>
         trace (snd (rollbackToVersion B target w)) =
           trace w @ HistorySelectGt target # map HistoryDelete selected"
proof -
  let ?rows = "descending (filter (\<lambda>r. target < row_version r) (schema_migrations w))"
  let ?w1 = "sent (HistorySelectGt target) w"
  from assms(1) have no_fault: "store_fault B (length (trace w)) = None"
    by (auto simp: rollbackToVersion_def history_select_gt_def handleError_def
        split: option.splits)
  then have sel: "history_select_gt B target w = (Inr ?rows, ?w1)"
    by (simp add: history_select_gt_def)
  have sorted_sel: "sorted (rev selected)"
    unfolding assms(2) by (rule descending_sorted)
  have above: "\<forall>v \<in> set selected. target < v"
    unfolding assms(2) by (auto simp: descending_set)
  have sub: "subseq (rolledBack r) selected"
    and tr: "trace (snd (rollbackToVersion B target w)) =
               trace w @ HistorySelectGt target # map HistoryDelete selected"
  proof -
    show "subseq (rolledBack r) selected"
    proof (cases "?rows = []")
      case True
      with assms(1) sel show ?thesis by (auto simp: rollbackToVersion_def)
    next
      case False
      obtain ys where "fst (delete_each B ?rows [] ?w1) = [] @ ys"
        and "subseq ys (map row_version ?rows)"
        using delete_each_subseq [of B ?rows "[]" ?w1] by blast
      with assms False sel show ?thesis
        by (auto simp: rollbackToVersion_def case_prod_beta)
    qed
    show "trace (snd (rollbackToVersion B target w)) =
               trace w @ HistorySelectGt target # map HistoryDelete selected"
    proof (cases "?rows = []")
      case True
      with sel show ?thesis by (simp add: rollbackToVersion_def assms(2) sent_fields)
    next
      case False
      with sel delete_each_trace [of B ?rows "[]" ?w1] show ?thesis
        by (simp add: rollbackToVersion_def assms(2) sent_fields case_prod_beta)
    qed
  qed
  have desc: "sorted (rev (rolledBack r))"
  proof -
    from sorted_sel have "sorted_wrt (\<lambda>a b. b \<le> a) selected"
      by (simp add: sorted_wrt_rev)
    with sub have "sorted_wrt (\<lambda>a b. b \<le> a) (rolledBack r)"
      by (rule subseq_sorted_wrt)
    then show ?thesis by (simp add: sorted_wrt_rev)
  qed
  have strict: "sorted_wrt (\<lambda>a b. b < a) (rolledBack r)"
    if "distinct (map row_version (schema_migrations w))"
  proof -
    from that have "distinct selected"
      unfolding assms(2) by (intro descending_distinct) (simp add: distinct_map_filter)
    with sorted_sel have "sorted_wrt (<) (rev selected)"
      by (simp add: strict_sorted_iff)
    then have "sorted_wrt (\<lambda>a b. b < a) selected"
      by (simp add: sorted_wrt_rev)
    with sub show ?thesis by (rule subseq_sorted_wrt)
  qed
  from sub above have "\<forall>v \<in> set (rolledBack r). target < v"
    by (auto dest: list_emb_set)
  with desc strict sorted_sel sub tr show ?thesis by blast
qed

theorem rollbackToVersion_newest_first_witness:
  "data (fst (rollbackToVersion healthy_backend ''20240101000000'' three_applied)) =
     Some \<lparr>rolledBack = [''20240301000000'', ''20240201000000'']\<rparr> \<and>
   trace (snd (rollbackToVersion healthy_backend ''20240101000000'' three_applied)) =
     [HistorySelectGt ''20240101000000'', HistoryDelete ''20240301000000'',
      HistoryDelete ''20240201000000''] \<and>
   sorted_wrt (\<lambda>a b. b < a) [''20240301000000'', ''20240201000000'' :: string]"
proof -
  have sel: "map row_version (descending (filter (\<lambda>r. ''20240101000000'' < row_version r)
               (schema_migrations three_applied))) = [''20240301000000'', ''20240201000000'']"
    by (simp add: descending_def three_applied_def fresh_world_def history_of_def)
  have run: "data (fst (rollbackToVersion healthy_backend ''20240101000000'' three_applied)) =
     Some \<lparr>rolledBack = [''20240301000000'', ''20240201000000'']\<rparr>"
    by (simp add: rollbackToVersion_def history_select_gt_def history_delete_def sent_def
        descending_def healthy_backend_def three_applied_def fresh_world_def history_of_def)
  have dist: "distinct (map row_version (schema_migrations three_applied))"
    by (simp add: three_applied_def fresh_world_def history_of_def)
  have tr: "trace three_applied = []" by (simp add: three_applied_def fresh_world_def)
  show ?thesis
    using rollbackToVersion_newest_first [OF run sel [symmetric]] run dist tr sel
    by simp
qed

section \<open>Facts about the single rollback and the status query\<close>

text \<open>While the store serves every request, a rollback that reports success leaves no
  row of the version, and the status query without a matching row fails.\<close>

lemma rollbackMigration_removes_row:
  assumes "\<forall>k. store_fault B k = None"
    and "success (fst (rollbackMigration B v downSql w))"
  shows "filter (\<lambda>r. row_version r = v)
           (schema_migrations (snd (rollbackMigration B v downSql w))) = []"
proof -
  obtain thrown w1 where down: "run_down_sql B downSql w = (thrown, w1)"
    by (cases "run_down_sql B downSql w")
  with assms(2) have "thrown = None"
    by (cases thrown) (simp_all add: rollbackMigration_def handleError_def)
  with down assms(1) show ?thesis
    by (simp add: rollbackMigration_def history_delete_def sent_fields filter_empty_conv)
qed

lemma getMigrationStatus_no_row:
  assumes "store_fault B (length (trace w)) = None"
    and "filter (\<lambda>r. row_version r = v) (schema_migrations w) = []"
  shows "fst (getMigrationStatus B v w) =
           \<lparr>success = False, data = None,
             error = Some (''Failed to get migration status for version '' @ v @
                           '': Unknown error''),
             message = None\<rparr>"
  using assms
  by (simp add: getMigrationStatus_def history_select_single_def single_def handleError_def
      no_single_row_def)

text \<open>
  C5. When a non-empty down payload is given and the gateway fails to apply it (the
  \<open>exec_sql\<close> RPC answers with an error and so does the \<open>exec\<close> RPC tried next),
  \<open>rollbackMigration\<close> returns a failure and leaves both tables as they were; the only
  requests sent are the two attempts, so no delete reaches the History Store.
\<close>

theorem rollbackMigration_aborts_when_down_fails:
  assumes "d \<noteq> []"
    and "rpc_exec_sql B (length (trace w)) d = Some m1"
    and "rpc_exec B (Suc (length (trace w))) d = Some m2"
  shows "fst (rollbackMigration B v (Some d) w) =
           \<lparr>success = False, data = None,
            error = Some (''Failed to rollback migration '' @ v @ '': '' @ sql_unsupported_text m2),
            message = None\<rparr> \<and>
         schema_migrations (snd (rollbackMigration B v (Some d) w)) = schema_migrations w \<and>
         migration_rollbacks (snd (rollbackMigration B v (Some d) w)) = migration_rollbacks w \<and>
         trace (snd (rollbackMigration B v (Some d) w)) = trace w @ [RpcExecSql d, RpcExec d]"
  using assms
  by (simp add: rollbackMigration_def run_down_sql_def client_rpc_exec_sql_def executeSQL_def
      client_rpc_exec_def sent_def handleError_def)

theorem rollbackMigration_aborts_when_down_fails_witness:
  "''DROP TABLE users'' \<noteq> [] \<and>
   rpc_exec_sql gateway_down (length (trace three_applied)) ''DROP TABLE users'' =
     Some ''function exec_sql does not exist'' \<and>
   rpc_exec gateway_down (Suc (length (trace three_applied))) ''DROP TABLE users'' =
     Some ''function exec does not exist'' \<and>
   \<not> success (fst (rollbackMigration gateway_down ''20240201000000''
                    (Some ''DROP TABLE users'') three_applied)) \<and>
   schema_migrations (snd (rollbackMigration gateway_down ''20240201000000''
                             (Some ''DROP TABLE users'') three_applied)) =
     schema_migrations three_applied \<and>
   trace (snd (rollbackMigration gateway_down ''20240201000000''
                 (Some ''DROP TABLE users'') three_applied)) =
     [RpcExecSql ''DROP TABLE users'', RpcExec ''DROP TABLE users'']"
proof -
  have a: "''DROP TABLE users'' \<noteq> []" by simp
  have b: "rpc_exec_sql gateway_down (length (trace three_applied)) ''DROP TABLE users'' =
             Some ''function exec_sql does not exist''"
    by (simp add: gateway_down_def healthy_backend_def)
  have c: "rpc_exec gateway_down (Suc (length (trace three_applied))) ''DROP TABLE users'' =
             Some ''function exec does not exist''"
    by (simp add: gateway_down_def healthy_backend_def)
  have t: "trace three_applied = []" by (simp add: three_applied_def fresh_world_def)
  show ?thesis
    using rollbackMigration_aborts_when_down_fails [OF a b c, of "''20240201000000''"] b c t
    by simp
qed

text \<open>
  C6, evaluated where the History Store refuses the delete and the SQL fallback cannot
  run: \<open>rollbackMigration\<close> sends the delete and then the \<open>DELETE\<close> statement, drops the
  outcome of the latter and reports success; the row is still stored and
  \<open>getMigrationStatus\<close> of that version succeeds with it. Where no row has the version,
  \<open>getMigrationStatus\<close> returns a failure whose text ends in \<open>Unknown error\<close>, the very
  reply it gives when the store refuses the request.
\<close>

theorem rollbackMigration_reports_success_without_delete:
  "fst (rollbackMigration delete_refused ''20240201000000'' None three_applied) =
     \<lparr>success = True, data = None, error = None,
      message = Some ''Migration 20240201000000 rolled back successfully''\<rparr> \<and>
   schema_migrations (snd (rollbackMigration delete_refused ''20240201000000'' None
                             three_applied)) = schema_migrations three_applied \<and>
   trace (snd (rollbackMigration delete_refused ''20240201000000'' None three_applied)) =
     [HistoryDelete ''20240201000000'', RpcExec (delete_statement ''20240201000000'')] \<and>
   fst (getMigrationStatus delete_refused ''20240201000000''
          (snd (rollbackMigration delete_refused ''20240201000000'' None three_applied))) =
     \<lparr>success = True,
      data = Some \<lparr>version = ''20240201000000'', name = ''Migration 20240201000000'',
                   executed_at = None, status = Applied, sql = None\<rparr>,
      error = None, message = None\<rparr> \<and>
   fst (getMigrationStatus healthy_backend ''20240401000000'' three_applied) =
     \<lparr>success = False, data = None,
      error = Some ''Failed to get migration status for version 20240401000000: Unknown error'',
      message = None\<rparr> \<and>
   fst (getMigrationStatus store_refuses ''20240401000000'' three_applied) =
     \<lparr>success = False, data = None,
      error = Some ''Failed to get migration status for version 20240401000000: Unknown error'',
      message = None\<rparr>"
  by (simp add: rollbackMigration_def run_down_sql_def history_delete_def executeSQL_def
      client_rpc_exec_def rolled_back_text_def getMigrationStatus_def
      history_select_single_def single_def no_single_row_def handleError_def
      migration_of_row_def sent_def delete_refused_def gateway_down_def store_refuses_def
      healthy_backend_def three_applied_def fresh_world_def history_of_def)

section \<open>Facts about forward creation\<close>

text \<open>
  C1 (as amended). When the gateway fails to apply the forward payload (the \<open>exec\<close> RPC
  answers with an error and the admin POST throws), \<open>deployMigration\<close> returns a failure
  whose error text carries the message of the RPC error, together with the Migration of
  the allocated version and the given name in status \<open>Pending\<close>. Nothing is written:
  both tables are as before, and the only requests sent are the two attempts.
\<close>

theorem deployMigration_failure_returns_pending:
  assumes "rpc_exec B (length (trace w)) q = Some m"
    and "\<not> admin_query B (Suc (length (trace w))) q"
  shows "fst (deployMigration B q nm w) =
           \<lparr>success = False,
            data = Some \<lparr>version = version_stamp (clock_at B (clock_reads w)), name = nm,
                         executed_at = Some (toISOString (clock_at B (Suc (clock_reads w)))),
                         status = Pending, sql = Some q\<rparr>,
            error = Some (''Migration created but SQL execution failed: '' @ m @
              ''. Execute SQL manually in Supabase dashboard, then use CLI: supabase migration list''),
            message = None\<rparr> \<and>
         schema_migrations (snd (deployMigration B q nm w)) = schema_migrations w \<and>
         migration_rollbacks (snd (deployMigration B q nm w)) = migration_rollbacks w \<and>
         trace (snd (deployMigration B q nm w)) = trace w @ [RpcExec q, AdminQuery q]"
  using assms
  by (simp add: deployMigration_def new_Date_def client_rpc_exec_def admin_post_query_def
      sent_def deploy_failed_text_def)

theorem deployMigration_failure_returns_pending_witness:
  "rpc_exec gateway_down (length (trace three_applied)) ''CREATE TABLE users()'' =
     Some ''function exec does not exist'' \<and>
   \<not> admin_query gateway_down (Suc (length (trace three_applied))) ''CREATE TABLE users()'' \<and>
   map_option status
     (data (fst (deployMigration gateway_down ''CREATE TABLE users()'' ''add_users_table''
                   three_applied))) = Some Pending \<and>
   \<not> success (fst (deployMigration gateway_down ''CREATE TABLE users()'' ''add_users_table''
                    three_applied)) \<and>
   schema_migrations (snd (deployMigration gateway_down ''CREATE TABLE users()''
                             ''add_users_table'' three_applied)) =
     schema_migrations three_applied"
proof -
  have a: "rpc_exec gateway_down (length (trace three_applied)) ''CREATE TABLE users()'' =
             Some ''function exec does not exist''"
    by (simp add: gateway_down_def healthy_backend_def)
  have b: "\<not> admin_query gateway_down (Suc (length (trace three_applied)))
               ''CREATE TABLE users()''"
    by (simp add: gateway_down_def healthy_backend_def)
  show ?thesis
    using deployMigration_failure_returns_pending [OF a b, of "''add_users_table''"] a b
    by simp
qed

text \<open>
  C1 as stated fails: after the failed creation the History Store has no row, and the
  status query for the returned version finds nothing.
\<close>

theorem deployMigration_failure_counterexample:
  "\<not> success (fst (deployMigration gateway_down ''CREATE TABLE users()'' ''add_users_table''
                    fresh_world)) \<and>
   map_option version
     (data (fst (deployMigration gateway_down ''CREATE TABLE users()'' ''add_users_table''
                   fresh_world))) = Some ''20240101000000'' \<and>
   schema_migrations (snd (deployMigration gateway_down ''CREATE TABLE users()''
                             ''add_users_table'' fresh_world)) = [] \<and>
   \<not> success (fst (getMigrationStatus gateway_down ''20240101000000''
                    (snd (deployMigration gateway_down ''CREATE TABLE users()''
                            ''add_users_table'' fresh_world)))) \<and>
   data (fst (listMigrations gateway_down
                (snd (deployMigration gateway_down ''CREATE TABLE users()''
                        ''add_users_table'' fresh_world)))) = Some []"
  by (simp add: deployMigration_def new_Date_def client_rpc_exec_def admin_post_query_def
      sent_def getMigrationStatus_def history_select_single_def single_def handleError_def
      listMigrations_def history_select_all_def descending_def version_stamp_new_year
      gateway_down_def healthy_backend_def fresh_world_def)

text \<open>
  C2 (as amended). When the gateway applies the forward payload (the \<open>exec\<close> RPC runs it,
  or the admin POST does after the RPC failed), \<open>deployMigration\<close> returns success with
  the Migration of the allocated version in status \<open>Applied\<close> and \<open>executed_at\<close> set.
  It sends no request to the History Store or the ledger: afterwards the tables hold what
  the payload's own execution left, and unless they have a row of the returned version the
  status query for it fails, with a text that ends in \<open>Unknown error\<close>.
\<close>

theorem deployMigration_success_returns_applied:
  assumes "rpc_exec B (length (trace w)) q = None \<or> admin_query B (Suc (length (trace w))) q"
    and "w' = snd (deployMigration B q nm w)"
    and "v = version_stamp (clock_at B (clock_reads w))"
  shows "fst (deployMigration B q nm w) =
           \<lparr>success = True,
            data = Some \<lparr>version = v, name = nm,
                         executed_at = Some (toISOString (clock_at B (Suc (clock_reads w)))),
                         status = Applied, sql = Some q\<rparr>,
            error = None,
            message = Some (deploy_created_text nm v)\<rparr> \<and>
         list_all (\<lambda>e. \<not> store_access e) (drop (length (trace w)) (trace w')) \<and>
         (schema_migrations w', migration_rollbacks w') =
           sql_effect B q (schema_migrations w, migration_rollbacks w) \<and>
         (store_fault B (length (trace w')) = None \<and>
          v \<notin> set (map row_version (schema_migrations w')) \<longrightarrow>
            fst (getMigrationStatus B v w') =
              \<lparr>success = False, data = None,
               error = Some (''Failed to get migration status for version '' @ v @
                             '': Unknown error''),
               message = None\<rparr>)"
proof -
  have run: "fst (deployMigration B q nm w) =
           \<lparr>success = True,
            data = Some \<lparr>version = v, name = nm,
                         executed_at = Some (toISOString (clock_at B (Suc (clock_reads w)))),
                         status = Applied, sql = Some q\<rparr>,
            error = None,
            message = Some (deploy_created_text nm v)\<rparr> \<and>
         list_all (\<lambda>e. \<not> store_access e) (drop (length (trace w)) (trace w')) \<and>
         (schema_migrations w', migration_rollbacks w') =
           sql_effect B q (schema_migrations w, migration_rollbacks w)"
  proof (cases "rpc_exec B (length (trace w)) q")
    case None
    then show ?thesis
      unfolding assms(2,3)
      by (simp add: deployMigration_def deploy_applied_def new_Date_def client_rpc_exec_def
          run_sql_def sent_def split: prod.splits)
  next
    case (Some m)
    with assms(1) have "admin_query B (Suc (length (trace w))) q" by simp
    with Some show ?thesis
      unfolding assms(2,3)
      by (simp add: deployMigration_def deploy_applied_def new_Date_def client_rpc_exec_def
          admin_post_query_def run_sql_def sent_def split: prod.splits)
  qed
  have "fst (getMigrationStatus B v w') =
          \<lparr>success = False, data = None,
             error = Some (''Failed to get migration status for version '' @ v @
                           '': Unknown error''),
             message = None\<rparr>"
    if "store_fault B (length (trace w')) = None"
      and "v \<notin> set (map row_version (schema_migrations w'))"
  proof -
    from that(2) have "filter (\<lambda>r. row_version r = v) (schema_migrations w') = []"
      by (auto simp: filter_empty_conv)
    with that(1) show ?thesis by (rule getMigrationStatus_no_row)
  qed
  with run show ?thesis by blast
qed

theorem deployMigration_success_returns_applied_witness:
  "(rpc_exec healthy_backend (length (trace fresh_world)) ''CREATE TABLE users()'' = None \<or>
    admin_query healthy_backend (Suc (length (trace fresh_world))) ''CREATE TABLE users()'') \<and>
   map_option status
     (data (fst (deployMigration healthy_backend ''CREATE TABLE users()'' ''add_users_table''
                   fresh_world))) = Some Applied \<and>
   trace (snd (deployMigration healthy_backend ''CREATE TABLE users()'' ''add_users_table''
                 fresh_world)) = [RpcExec ''CREATE TABLE users()''] \<and>
   fst (getMigrationStatus healthy_backend ''20240101000000''
          (snd (deployMigration healthy_backend ''CREATE TABLE users()'' ''add_users_table''
                  fresh_world))) =
     \<lparr>success = False, data = None,
      error = Some ''Failed to get migration status for version 20240101000000: Unknown error'',
      message = None\<rparr>"
proof -
  let ?w' = "snd (deployMigration healthy_backend ''CREATE TABLE users()'' ''add_users_table''
                    fresh_world)"
  have a: "rpc_exec healthy_backend (length (trace fresh_world)) ''CREATE TABLE users()'' = None \<or>
           admin_query healthy_backend (Suc (length (trace fresh_world))) ''CREATE TABLE users()''"
    by (simp add: healthy_backend_def)
  have v: "''20240101000000'' = version_stamp (clock_at healthy_backend (clock_reads fresh_world))"
    by (simp add: healthy_backend_def version_stamp_new_year)
  have tr: "trace ?w' = [RpcExec ''CREATE TABLE users()'']"
    by (simp add: deployMigration_def deploy_applied_def new_Date_def client_rpc_exec_def
        run_sql_def sent_def healthy_backend_def fresh_world_def)
  have served: "store_fault healthy_backend (length (trace ?w')) = None"
    by (simp add: healthy_backend_def)
  have tables: "sql_effect healthy_backend ''CREATE TABLE users()''
                  (schema_migrations fresh_world, migration_rollbacks fresh_world) = ([], Some [])"
    by (simp add: healthy_backend_def fresh_world_def)
  show ?thesis
    using deployMigration_success_returns_applied [OF a refl v, of "''add_users_table''"]
          a tr served tables
    by simp
qed

text \<open>
  C2 as stated fails: the gateway applies the payload and the returned Migration is
  \<open>Applied\<close>, yet no row was inserted and the status query for the returned version
  fails.
\<close>

theorem deployMigration_success_counterexample:
  "success (fst (deployMigration healthy_backend ''CREATE TABLE users()'' ''add_users_table''
                   fresh_world)) \<and>
   map_option version
     (data (fst (deployMigration healthy_backend ''CREATE TABLE users()'' ''add_users_table''
                   fresh_world))) = Some ''20240101000000'' \<and>
   schema_migrations (snd (deployMigration healthy_backend ''CREATE TABLE users()''
                             ''add_users_table'' fresh_world)) = [] \<and>
   fst (getMigrationStatus healthy_backend ''20240101000000''
          (snd (deployMigration healthy_backend ''CREATE TABLE users()'' ''add_users_table''
                  fresh_world))) =
     \<lparr>success = False, data = None,
      error = Some ''Failed to get migration status for version 20240101000000: Unknown error'',
      message = None\<rparr>"
  by (simp add: deployMigration_def deploy_applied_def new_Date_def client_rpc_exec_def
      run_sql_def sent_def getMigrationStatus_def history_select_single_def single_def
      handleError_def no_single_row_def version_stamp_new_year healthy_backend_def
      fresh_world_def)

section \<open>Behaviour at the inputs where the code departs from its documentation\<close>

text \<open>
  For contrast with what follows: while the clock stays within one second and every
  request is served, the ledger row is stored under the returned version and the rollback
  by that version sends the stored down payload once, then the delete.
\<close>

lemma createMigrationWithRollback_round_trip_same_second:
  "map_option version
     (data (fst (createMigrationWithRollback healthy_backend ''add_users''
                   ''CREATE TABLE users()'' ''DROP TABLE users'' fresh_world))) =
     Some ''20240101000000'' \<and>
   map_option (map rb_version)
     (migration_rollbacks (snd (createMigrationWithRollback healthy_backend ''add_users''
                                  ''CREATE TABLE users()'' ''DROP TABLE users'' fresh_world))) =
     Some [''20240101000000''] \<and>
   success (fst (rollbackMigrationWithDownSql healthy_backend ''20240101000000''
                   (snd (createMigrationWithRollback healthy_backend ''add_users''
                           ''CREATE TABLE users()'' ''DROP TABLE users'' fresh_world)))) \<and>
   drop 2 (trace (snd (rollbackMigrationWithDownSql healthy_backend ''20240101000000''
                         (snd (createMigrationWithRollback healthy_backend ''add_users''
                                 ''CREATE TABLE users()'' ''DROP TABLE users'' fresh_world))))) =
     [RollbacksSelectEq ''20240101000000'', RpcExecSql ''DROP TABLE users'',
      HistoryDelete ''20240101000000'']"
  by (simp add: createMigrationWithRollback_def store_down_sql_def deployMigration_def
      deploy_applied_def new_Date_def client_rpc_exec_def client_rpc_exec_sql_def run_sql_def
      sent_def rollbacks_insert_def rollbackMigrationWithDownSql_def
      rollbacks_select_single_def single_def rollbackMigration_def run_down_sql_def
      history_delete_def version_stamp_new_year toISOString_new_year healthy_backend_def
      fresh_world_def)

text \<open>
  C3, evaluated where the clock passes a second between the stamp taken by
  \<open>createMigrationWithRollback\<close> and the one taken by \<open>deployMigration\<close>: the returned
  Migration carries the later version, the ledger row is stored under the earlier one,
  and \<open>rollbackMigrationWithDownSql\<close> of the returned version finds no row, so the down
  payload is never sent.
\<close>

theorem createMigrationWithRollback_ledger_version_differs:
  "map_option version
     (data (fst (createMigrationWithRollback second_boundary ''add_users''
                   ''CREATE TABLE users()'' ''DROP TABLE users'' fresh_world))) =
     Some ''20240101000001'' \<and>
   map_option (map rb_version)
     (migration_rollbacks (snd (createMigrationWithRollback second_boundary ''add_users''
                                  ''CREATE TABLE users()'' ''DROP TABLE users'' fresh_world))) =
     Some [''20240101000000''] \<and>
   fst (rollbackMigrationWithDownSql second_boundary ''20240101000001''
          (snd (createMigrationWithRollback second_boundary ''add_users''
                  ''CREATE TABLE users()'' ''DROP TABLE users'' fresh_world))) =
     \<lparr>success = False, data = None,
      error = Some ''No rollback SQL found for migration 20240101000001. Use rollbackMigration() with manual down SQL instead.'',
      message = None\<rparr> \<and>
   trace (snd (rollbackMigrationWithDownSql second_boundary ''20240101000001''
                 (snd (createMigrationWithRollback second_boundary ''add_users''
                         ''CREATE TABLE users()'' ''DROP TABLE users'' fresh_world)))) =
     [RpcExec ''CREATE TABLE users()'',
      RollbacksInsert \<lparr>rb_version = ''20240101000000'', rb_name = ''add_users'',
                       down_sql = ''DROP TABLE users'',
                       created_at = ''2024-01-01T00:00:01.000Z''\<rparr>,
      RollbacksSelectEq ''20240101000001'']"
  by (simp add: createMigrationWithRollback_def store_down_sql_def deployMigration_def
      deploy_applied_def new_Date_def client_rpc_exec_def run_sql_def sent_def
      rollbacks_insert_def rollbackMigrationWithDownSql_def rollbacks_select_single_def
      single_def no_rollback_text_def version_stamp_new_year version_stamp_one_ms_later
      toISOString_one_ms_later second_boundary_def healthy_backend_def fresh_world_def)

text \<open>
  C4, evaluated where the ledger refuses every write: after the first insert fails the
  table statement is run and the insert is sent once more; its error is dropped, and the
  caller receives success with the rollback-support message and no error, while the
  ledger holds no row.
\<close>

theorem createMigrationWithRollback_drops_ledger_error:
  "fst (createMigrationWithRollback store_refuses ''add_users'' ''CREATE TABLE users()''
          ''DROP TABLE users'' fresh_world) =
     \<lparr>success = True,
      data = Some \<lparr>version = ''20240101000000'', name = ''add_users'',
                   executed_at = Some ''2024-01-01T00:00:00.999Z'', status = Applied,
                   sql = Some ''CREATE TABLE users()''\<rparr>,
      error = None,
      message = Some ''Migration add_users deployed with rollback support''\<rparr> \<and>
   migration_rollbacks
     (snd (createMigrationWithRollback store_refuses ''add_users'' ''CREATE TABLE users()''
             ''DROP TABLE users'' fresh_world)) = Some [] \<and>
   map store_access
     (trace (snd (createMigrationWithRollback store_refuses ''add_users''
                    ''CREATE TABLE users()'' ''DROP TABLE users'' fresh_world))) =
     [False, True, False, True] \<and>
   trace (snd (createMigrationWithRollback store_refuses ''add_users''
                 ''CREATE TABLE users()'' ''DROP TABLE users'' fresh_world)) ! 2 =
     RpcExec create_rollbacks_table"
  by (simp add: createMigrationWithRollback_def store_down_sql_def deployMigration_def
      deploy_applied_def new_Date_def client_rpc_exec_def run_sql_def sent_def
      rollbacks_insert_def executeSQL_def version_stamp_new_year toISOString_new_year
      store_refuses_def healthy_backend_def fresh_world_def)

text \<open>
  C8, evaluated at the version \<open>abc\<close>: the schemas for the version-taking tools reject
  it, but the handlers of \<open>rollback_migration\<close> and \<open>get_migration_status\<close> do not consult
  them; the malformed version reaches the History Store and the rollback reports success.
  An empty SQL payload to \<open>deploy_migration\<close> is rejected before any request.
\<close>

theorem version_tools_skip_validation:
  "rollbackMigrationSchema [(''version'', ''abc'')] =
     [''version: Version must be 14 digits (YYYYMMDDHHMMSS)''] \<and>
   call_tool healthy_backend rollback_migration [(''version'', ''abc'')] three_applied =
     (Content (NoData \<lparr>success = True, data = None, error = None,
                      message = Some ''Migration abc rolled back successfully''\<rparr>),
      three_applied\<lparr>trace := [HistoryDelete ''abc'']\<rparr>) \<and>
   getMigrationStatusSchema [(''version'', ''abc'')] =
     [''version: Version must be 14 digits (YYYYMMDDHHMMSS)''] \<and>
   trace (snd (call_tool healthy_backend get_migration_status [(''version'', ''abc'')]
                 three_applied)) =
     [HistorySelectEq ''abc''] \<and>
   call_tool healthy_backend deploy_migration [(''sql'', []), (''name'', ''add_users'')]
     three_applied =
     (IsError ''Validation failed: sql: SQL cannot be empty'', three_applied)"
  by (simp add: call_tool_def member_def rollbackMigrationSchema_def
      getMigrationStatusSchema_def deployMigrationSchema_def validateInput_def at_path_def
      versionSchema_def sqlSchema_def nameSchema_def optional_def z_string_def
      fourteen_digits_def rollbackMigration_def run_down_sql_def history_delete_def
      rolled_back_text_def getMigrationStatus_def history_select_single_def single_def
      handleError_def sent_def healthy_backend_def three_applied_def fresh_world_def
      history_of_def)

end
